theory Spec2Isabelle
  imports Complex_Main "HOL-Library.AList" "HOL-Library.Sublist"
begin

section \<open>Data model of \<^verbatim>\<open>pymatgen/entries/compatibility.py\<close>\<close>

text \<open>
  Energies and adjustments are Python floats. The model takes them as exact reals and
  writes every sum in the order in which the code adds; the rounding of the floats is
  outside the model, so nothing is stated here that rests on two sums taken in different
  orders being equal. A Python \<^verbatim>\<open>str\<close> is the list of its code points, which
  the type \<open>string\<close> holds below 256. A Python \<^verbatim>\<open>dict\<close> with string keys is an
  association list in insertion order: \<open>map_of\<close> is \<^verbatim>\<open>d.get(k)\<close> and
  \<open>AList.update\<close> is \<^verbatim>\<open>d[k] = v\<close> (an existing key keeps its place, a new
  key goes last).
\<close>

type_synonym 'v dict = "(string \<times> 'v) list"

text \<open>The exceptions the module's code can raise.\<close>

datatype exn =
    CompatibilityError
  | ValueError
  | KeyError
  | IndexError
  | TypeError
  | AttributeError
  | ZeroDivisionError

text \<open>The warnings the module emits through \<^verbatim>\<open>warnings.warn\<close>.\<close>

datatype warning =
    ProvenanceUnknown
  | NoStructureOrOxideType

text \<open>
  The Composition class is an external collaborator; the module reads
  \<^verbatim>\<open>comp.elements\<close> (here the element symbols), \<^verbatim>\<open>comp[el]\<close>,
  \<^verbatim>\<open>comp.num_atoms\<close> and \<^verbatim>\<open>comp.reduced_formula\<close>.
\<close>

record composition =
  elements :: "string list"
  amount :: "string \<Rightarrow> real"
  num_atoms :: real
  reduced_formula :: string

text \<open>The keys of \<^verbatim>\<open>entry.parameters\<close> that the module reads.\<close>

record parameters =
  run_type :: "string option"
  hubbards :: "real dict option"
  potcar_spec :: "string dict list option"
  potcar_symbols :: "string list option"

text \<open>
  The keys of \<^verbatim>\<open>entry.data\<close> that the module reads or writes;
  \<open>energy_adjustments\<close> is the Ledger: source name to (label to value).
\<close>

record entry_data =
  oxide_type :: "string option"
  sulfide_type :: "string option"
  energy_adjustments :: "real dict dict option"

typedecl pmg_structure

text \<open>
  A ComputedEntry; \<open>struct\<close> is the \<^verbatim>\<open>structure\<close> attribute, present on a
  ComputedStructureEntry only (\<^verbatim>\<open>hasattr(entry, "structure")\<close>).
\<close>

record entry =
  entry_id :: string
  composition :: composition
  uncorrected_energy :: real
  correction :: real
  parameters :: parameters
  data :: entry_data
  struct :: "pmg_structure option"

text \<open>
  Modelled from the spec: the Entry class is not part of the module; its derived
  property is \<^verbatim>\<open>energy = uncorrected_energy + correction\<close>.
\<close>

definition energy :: "entry \<Rightarrow> real" where
  "energy e = uncorrected_energy e + correction e"

subsection \<open>Python truthiness\<close>

definition truthy_str :: "string option \<Rightarrow> bool" where
  "truthy_str x = (case x of None \<Rightarrow> False | Some s \<Rightarrow> s \<noteq> [])"

definition truthy_dict :: "'v dict option \<Rightarrow> bool" where
  "truthy_dict x = (case x of None \<Rightarrow> False | Some d \<Rightarrow> d \<noteq> [])"

definition truthy_list :: "'a list option \<Rightarrow> bool" where
  "truthy_list x = (case x of None \<Rightarrow> False | Some d \<Rightarrow> d \<noteq> [])"

definition truthy_num :: "real option \<Rightarrow> bool" where
  "truthy_num x = (case x of None \<Rightarrow> False | Some v \<Rightarrow> v \<noteq> 0)"

section \<open>The Compatibility engine\<close>

text \<open>
  An instance of a Compatibility subclass: its \<^verbatim>\<open>clean\<close> flag, its
  \<^verbatim>\<open>__class__.__name__\<close> (the source key of the Ledger) and its implementation
  of the abstract method \<^verbatim>\<open>get_corrections_dict\<close>.
\<close>

record compatibility =
  clean :: bool
  class_name :: string
  get_corrections_dict :: "entry \<Rightarrow> exn + real dict"

subsection \<open>\<^verbatim>\<open>validate_corrections\<close>\<close>

text \<open>
  The running sum of the two nested loops of \<^verbatim>\<open>validate_corrections\<close>: it starts
  at 0 and takes the values one after the other, source by source in the order of the
  Ledger, label by label in the order of each source.
\<close>

definition documented_correction :: "entry \<Rightarrow> real" where
  "documented_correction e =
     (if truthy_dict (energy_adjustments (data e))
      then foldl (+) 0 (concat (map (\<lambda>kv. map snd (snd kv)) (the (energy_adjustments (data e)))))
      else 0)"

text \<open>
  The method returns nothing; its effect is the warning. The message divides by
  \<^verbatim>\<open>entry.composition.num_atoms\<close>, which raises for a composition of no atoms.
\<close>

definition validate_corrections :: "entry \<Rightarrow> exn + warning list" where
  "validate_corrections e =
     (if correction e \<noteq> documented_correction e
      then (if num_atoms (composition e) = 0 then Inl ZeroDivisionError
            else Inr [ProvenanceUnknown])
      else Inr [])"

subsection \<open>\<^verbatim>\<open>process_entry\<close>\<close>

text \<open>
  The test \<^verbatim>\<open>entry.data["energy_adjustments"].get(k) == v\<close> of the innermost
  branch reads the label \<open>k\<close> at the top level of the Ledger, whose keys are source
  names and whose values are dicts: the left side is \<^verbatim>\<open>None\<close> or a dict, and
  neither equals a number.
\<close>

definition toplevel_get_equals :: "real dict dict \<Rightarrow> string \<Rightarrow> real \<Rightarrow> bool" where
  "toplevel_get_equals adj k v = (case map_of adj k of None \<Rightarrow> False | Some d \<Rightarrow> False)"

text \<open>
  The message of the conflict branch formats the same top-level read with
  \<^verbatim>\<open>{:.3f}\<close>; \<^verbatim>\<open>None\<close> and dicts refuse a format specification
  (TypeError), so the message is never built.
\<close>

definition conflict_message :: "real dict dict \<Rightarrow> string \<Rightarrow> real \<Rightarrow> exn + string" where
  "conflict_message adj k v = (case map_of adj k of None \<Rightarrow> Inl TypeError | Some d \<Rightarrow> Inl TypeError)"

text \<open>
  One iteration of the loop \<^verbatim>\<open>for k, v in corrections.items()\<close>: the entry after
  it, or the exception it raises (before any assignment of that iteration).
\<close>

definition apply_adjustment :: "string \<Rightarrow> entry \<Rightarrow> string \<times> real \<Rightarrow> exn + entry" where
  "apply_adjustment cls e kv =
     (let k = fst kv; v = snd kv; ea = energy_adjustments (data e) in
      if truthy_dict ea then
        (let adj = the ea in
         if truthy_dict (map_of adj cls) then
           (let inner = the (map_of adj cls) in
            if truthy_num (map_of inner k) then
              (if toplevel_get_equals adj k v then Inr e
               else (case conflict_message adj k v of
                       Inl x \<Rightarrow> Inl x
                     | Inr msg \<Rightarrow> Inl CompatibilityError))
            else
              Inr (e\<lparr>correction := correction e + v,
                     data := (data e)\<lparr>energy_adjustments :=
                       Some (AList.update cls (AList.update k v inner) adj)\<rparr>\<rparr>))
         else
           Inr (e\<lparr>correction := correction e + v,
                  data := (data e)\<lparr>energy_adjustments :=
                    Some (AList.update cls [(k, v)] adj)\<rparr>\<rparr>))
      else
        Inr (e\<lparr>correction := correction e + v,
               data := (data e)\<lparr>energy_adjustments := Some [(cls, [(k, v)])]\<rparr>\<rparr>))"

text \<open>
  The whole loop. The entry is mutated in place, so the state reached when an
  exception leaves the loop is part of the result.
\<close>

fun merge_corrections :: "string \<Rightarrow> real dict \<Rightarrow> entry \<Rightarrow> exn option \<times> entry" where
  "merge_corrections cls [] e = (None, e)"
| "merge_corrections cls (kv # kvs) e =
     (case apply_adjustment cls e kv of
        Inl x \<Rightarrow> (Some x, e)
      | Inr e' \<Rightarrow> merge_corrections cls kvs e')"

text \<open>\<^verbatim>\<open>entry.correction = 0\<close> and \<^verbatim>\<open>del entry.data["energy_adjustments"]\<close>.\<close>

definition clean_entry :: "entry \<Rightarrow> entry" where
  "clean_entry e = e\<lparr>correction := 0, data := (data e)\<lparr>energy_adjustments := None\<rparr>\<rparr>"

text \<open>
  What a call of \<^verbatim>\<open>process_entry\<close> does: it returns the entry, returns
  \<^verbatim>\<open>None\<close> (a CompatibilityError was caught), or lets another exception through.
\<close>

datatype outcome = Returned | Rejected | Raised exn

definition handle_exn :: "exn \<Rightarrow> outcome" where
  "handle_exn x = (if x = CompatibilityError then Rejected else Raised x)"

text \<open>The outcome of the call and the state of the entry object after it.\<close>

definition process_entry :: "compatibility \<Rightarrow> entry \<Rightarrow> outcome \<times> entry" where
  "process_entry c e0 =
     (let e = (if clean c then clean_entry e0 else e0) in
      case validate_corrections e of
        Inl x \<Rightarrow> (Raised x, e)
      | Inr w \<Rightarrow>
          (case get_corrections_dict c e of
             Inl x \<Rightarrow> (handle_exn x, e)
           | Inr corrections \<Rightarrow>
               (case merge_corrections (class_name c) corrections e of
                  (None, e') \<Rightarrow> (Returned, e')
                | (Some x, e') \<Rightarrow> (handle_exn x, e'))))"

text \<open>
  \<^verbatim>\<open>list(filter(None, map(self.process_entry, entries)))\<close>: the entries are
  processed in order, the first exception that \<^verbatim>\<open>process_entry\<close> lets through ends
  the call, and the entries are distinct objects.
\<close>

fun process_entries :: "compatibility \<Rightarrow> entry list \<Rightarrow> exn + entry list" where
  "process_entries c [] = Inr []"
| "process_entries c (e # es) =
     (case process_entry c e of
        (Raised x, e') \<Rightarrow> Inl x
      | (Rejected, e') \<Rightarrow> process_entries c es
      | (Returned, e') \<Rightarrow>
          (case process_entries c es of
             Inl x \<Rightarrow> Inl x
           | Inr r \<Rightarrow> Inr (e' # r)))"

section \<open>Correction rules\<close>

text \<open>
  An instance of a Correction subclass, as the engine uses it: \<^verbatim>\<open>str(c)\<close>, the
  class docstring \<^verbatim>\<open>c.__doc__\<close> (absent when the class has none) and the method
  \<^verbatim>\<open>get_correction\<close>.
\<close>

record correction_rule =
  str :: string
  doc :: "string option"
  get_correction :: "entry \<Rightarrow> exn + real"

subsection \<open>String and dict helpers\<close>

text \<open>
  The code points below 256 that \<^verbatim>\<open>str.split()\<close> and \<^verbatim>\<open>str.strip()\<close> treat
  as white space (those for which \<^verbatim>\<open>str.isspace()\<close> holds).
\<close>

definition is_space :: "char \<Rightarrow> bool" where
  "is_space c = (c \<in> set [CHR 0x09, CHR 0x0A, CHR 0x0B, CHR 0x0C, CHR 0x0D,
                          CHR 0x1C, CHR 0x1D, CHR 0x1E, CHR 0x1F, CHR 0x20,
                          CHR 0x85, CHR 0xA0])"

text \<open>\<^verbatim>\<open>s.split()\<close>: \<open>w\<close> is the word being read.\<close>

fun split_ws :: "string \<Rightarrow> string \<Rightarrow> string list" where
  "split_ws w [] = (if w = [] then [] else [w])"
| "split_ws w (c # cs) =
     (if is_space c then (if w = [] then split_ws [] cs else w # split_ws [] cs)
      else split_ws (w @ [c]) cs)"

definition py_split :: "string \<Rightarrow> string list" where
  "py_split s = split_ws [] s"

text \<open>\<^verbatim>\<open>s.split()[1]\<close>.\<close>

definition second_word :: "string \<Rightarrow> exn + string" where
  "second_word s = (case py_split s of a # b # r \<Rightarrow> Inr b | _ \<Rightarrow> Inl IndexError)"

text \<open>\<^verbatim>\<open>s.strip()\<close>.\<close>

definition strip :: "string \<Rightarrow> string" where
  "strip s = rev (dropWhile is_space (rev (dropWhile is_space s)))"

text \<open>\<^verbatim>\<open>s.split("Args")[0]\<close>.\<close>

fun before_Args :: "string \<Rightarrow> string" where
  "before_Args [] = []"
| "before_Args (c # cs) = (if prefix ''Args'' (c # cs) then [] else c # before_Args cs)"

text \<open>\<^verbatim>\<open>d[k]\<close>.\<close>

definition getitem :: "'v dict \<Rightarrow> string \<Rightarrow> exn + 'v" where
  "getitem d k = (case map_of d k of None \<Rightarrow> Inl KeyError | Some v \<Rightarrow> Inr v)"

text \<open>\<^verbatim>\<open>d.get(k, 0)\<close>.\<close>

definition get0 :: "real dict \<Rightarrow> string \<Rightarrow> real" where
  "get0 d k = (case map_of d k of None \<Rightarrow> 0 | Some v \<Rightarrow> v)"

text \<open>A list comprehension whose element expression can raise: the first exception wins.\<close>

fun collect :: "('a \<Rightarrow> exn + 'b) \<Rightarrow> 'a list \<Rightarrow> exn + 'b list" where
  "collect f [] = Inr []"
| "collect f (x # xs) =
     (case f x of
        Inl err \<Rightarrow> Inl err
      | Inr y \<Rightarrow> (case collect f xs of Inl err \<Rightarrow> Inl err | Inr ys \<Rightarrow> Inr (y # ys)))"

subsection \<open>PotcarCorrection\<close>

text \<open>The state \<^verbatim>\<open>__init__\<close> leaves; \<open>input_set_name\<close> is \<^verbatim>\<open>input_set.__name__\<close>.\<close>

record potcar_config =
  valid_potcars :: "string dict"
  check_hash :: bool
  input_set_name :: string

definition psp_settings :: "potcar_config \<Rightarrow> entry \<Rightarrow> exn + string option set" where
  "psp_settings cfg e =
     (let spec = potcar_spec (parameters e) in
      if check_hash cfg then
        (if truthy_list spec
         then Inr (set (map (\<lambda>d. map_of d ''hash'') (filter (\<lambda>d. d \<noteq> []) (the spec))))
         else Inl ValueError)
      else
        (if truthy_list spec
         then (case collect (\<lambda>d. case map_of d ''titel'' of
                                     None \<Rightarrow> Inl AttributeError
                                   | Some t \<Rightarrow> second_word t)
                      (filter (\<lambda>d. d \<noteq> []) (the spec)) of
                 Inl err \<Rightarrow> Inl err
               | Inr ws \<Rightarrow> Inr (set (map Some ws)))
         else (case potcar_symbols (parameters e) of
                 None \<Rightarrow> Inl KeyError
               | Some syms \<Rightarrow>
                   (case collect second_word (filter (\<lambda>sym. sym \<noteq> []) syms) of
                      Inl err \<Rightarrow> Inl err
                    | Inr ws \<Rightarrow> Inr (set (map Some ws))))))"

definition PotcarCorrection_get_correction :: "potcar_config \<Rightarrow> entry \<Rightarrow> exn + real" where
  "PotcarCorrection_get_correction cfg e =
     (case psp_settings cfg e of
        Inl err \<Rightarrow> Inl err
      | Inr psp \<Rightarrow>
          (if set (map (\<lambda>el. map_of (valid_potcars cfg) el) (elements (composition e))) \<noteq> psp
           then Inl CompatibilityError
           else Inr 0))"

subsection \<open>GasCorrection\<close>

record gas_config =
  gas_name :: string
  cpd_energies :: "real dict"

definition GasCorrection_get_correction :: "gas_config \<Rightarrow> entry \<Rightarrow> exn + real" where
  "GasCorrection_get_correction cfg e =
     (let cmp = composition e; rform = reduced_formula cmp in
      case map_of (cpd_energies cfg) rform of
        Some E \<Rightarrow> Inr (E * num_atoms cmp - uncorrected_energy e)
      | None \<Rightarrow> Inr 0)"

text \<open>
  Modelled from the spec: the Composition class is not part of the module. The
  glossary's formula unit is one reduced formula's worth of atoms, and a composition
  holds its total atom count divided by the reduced formula's atom count of them;
  \<open>n_reduced\<close> is the atom count of the reduced formula.
\<close>

definition formula_units :: "composition \<Rightarrow> real \<Rightarrow> real" where
  "formula_units cmp n_reduced = num_atoms cmp / n_reduced"

subsection \<open>AnionCorrection\<close>

text \<open>
  The state \<^verbatim>\<open>__init__\<close> leaves, and the two classifiers the module imports from
  the structure analyzer: \<^verbatim>\<open>oxide_type(structure, 1.05, return_nbonds=True)\<close> and
  \<^verbatim>\<open>sulfide_type(structure)\<close>.
\<close>

record anion_config =
  oxide_correction :: "real dict"
  sulfide_correction :: "real dict"
  anion_name :: string
  correct_peroxide :: bool
  classify_oxide :: "pmg_structure \<Rightarrow> string \<times> real"
  classify_sulfide :: "pmg_structure \<Rightarrow> string"

text \<open>The class attributes of UCorrection that the formula matching reads.\<close>

definition common_peroxides :: "string list" where
  "common_peroxides = [''Li2O2'', ''Na2O2'', ''K2O2'', ''Cs2O2'', ''Rb2O2'', ''BeO2'',
                       ''MgO2'', ''CaO2'', ''SrO2'', ''BaO2'']"

definition common_superoxides :: "string list" where
  "common_superoxides = [''LiO2'', ''NaO2'', ''KO2'', ''RbO2'', ''CsO2'']"

definition ozonides :: "string list" where
  "ozonides = [''LiO3'', ''NaO3'', ''KO3'', ''NaO5'']"

text \<open>The sulfide block: what it adds to \<^verbatim>\<open>correction\<close>.\<close>

definition sulfide_part :: "anion_config \<Rightarrow> entry \<Rightarrow> real" where
  "sulfide_part cfg e =
     (let cmp = composition e in
      if ''S'' \<in> set (elements cmp) then
        (let sf_type =
           (if truthy_str (sulfide_type (data e)) then the (sulfide_type (data e))
            else (case struct e of
                    Some st \<Rightarrow> classify_sulfide cfg st
                  | None \<Rightarrow> ''sulfide''))
         in case map_of (sulfide_correction cfg) sf_type of
              Some x \<Rightarrow> x * amount cmp ''S''
            | None \<Rightarrow> 0)
      else 0)"

text \<open>\<^verbatim>\<open>self.oxide_correction[key] * comp["O"]\<close>.\<close>

definition oxide_scaled :: "anion_config \<Rightarrow> entry \<Rightarrow> string \<Rightarrow> exn + real" where
  "oxide_scaled cfg e key =
     (case getitem (oxide_correction cfg) key of
        Inl err \<Rightarrow> Inl err
      | Inr x \<Rightarrow> Inr (x * amount (composition e) ''O''))"

text \<open>The oxygen block: what it adds to \<^verbatim>\<open>correction\<close>, and the warnings it emits.\<close>

definition oxide_part :: "anion_config \<Rightarrow> entry \<Rightarrow> (exn + real) \<times> warning list" where
  "oxide_part cfg e =
     (let cmp = composition e in
      if ''O'' \<in> set (elements cmp) then
        (if correct_peroxide cfg then
           (if truthy_str (oxide_type (data e)) then
              (let ot = the (oxide_type (data e));
                   c1 = (case map_of (oxide_correction cfg) ot of
                           Some x \<Rightarrow> x * amount cmp ''O''
                         | None \<Rightarrow> 0)
               in if ot = ''hydroxide''
                  then (case oxide_scaled cfg e ''oxide'' of
                          Inl err \<Rightarrow> (Inl err, [])
                        | Inr c2 \<Rightarrow> (Inr (c1 + c2), []))
                  else (Inr c1, []))
            else
              (case struct e of
                 Some st \<Rightarrow>
                   (let ox_type = fst (classify_oxide cfg st);
                        nbonds = snd (classify_oxide cfg st)
                    in case map_of (oxide_correction cfg) ox_type of
                         Some x \<Rightarrow> (Inr (x * nbonds), [])
                       | None \<Rightarrow>
                           (if ox_type = ''hydroxide''
                            then (oxide_scaled cfg e ''oxide'', [])
                            else (Inr 0, [])))
               | None \<Rightarrow>
                   (let rform = reduced_formula cmp in
                    if rform \<in> set common_peroxides
                      then (oxide_scaled cfg e ''peroxide'', [NoStructureOrOxideType])
                    else if rform \<in> set common_superoxides
                      then (oxide_scaled cfg e ''superoxide'', [NoStructureOrOxideType])
                    else if rform \<in> set ozonides
                      then (oxide_scaled cfg e ''ozonide'', [NoStructureOrOxideType])
                    else if ''O'' \<in> set (elements cmp) \<and> length (elements cmp) > 1
                      then (oxide_scaled cfg e ''oxide'', [NoStructureOrOxideType])
                    else (Inr 0, [NoStructureOrOxideType]))))
         else (oxide_scaled cfg e ''oxide'', []))
      else (Inr 0, []))"

text \<open>The value returned or the exception raised, and the warnings emitted on the way.\<close>

definition AnionCorrection_get_correction ::
    "anion_config \<Rightarrow> entry \<Rightarrow> (exn + real) \<times> warning list" where
  "AnionCorrection_get_correction cfg e =
     (if length (elements (composition e)) = 1 then (Inr 0, [])
      else (case oxide_part cfg e of
              (Inl err, ws) \<Rightarrow> (Inl err, ws)
            | (Inr c, ws) \<Rightarrow> (Inr (sulfide_part cfg e + c), ws)))"

subsection \<open>AqueousCorrection\<close>

record aqueous_config =
  aq_cpd_energies :: "real dict"
  aq_name :: string

definition AqueousCorrection_get_correction :: "aqueous_config \<Rightarrow> entry \<Rightarrow> exn + real" where
  "AqueousCorrection_get_correction cfg e =
     (let cmp = composition e; rform = reduced_formula cmp;
          c1 = (case map_of (aq_cpd_energies cfg) rform of
                  Some x \<Rightarrow>
                    (if rform \<in> set [''H2'', ''H2O'']
                     then x * num_atoms cmp - uncorrected_energy e - correction e
                     else x * num_atoms cmp)
                | None \<Rightarrow> 0)
      in if rform \<noteq> ''H2O''
         then Inr (c1 + 0.5 * 2.46 * min (amount cmp ''H'' / 2) (amount cmp ''O''))
         else Inr c1)"

subsection \<open>UCorrection\<close>

text \<open>
  The state \<^verbatim>\<open>__init__\<close> leaves; \<open>electronegativity\<close> is \<^verbatim>\<open>el.X\<close> of the
  periodic table, which the module imports.
\<close>

record u_config =
  u_name :: string
  compat_type :: string
  u_settings :: "real dict dict"
  u_corrections :: "real dict dict"
  electronegativity :: "string \<Rightarrow> real"

text \<open>The loop \<^verbatim>\<open>for el in comp.elements\<close>.\<close>

fun u_loop :: "real dict \<Rightarrow> real dict \<Rightarrow> real dict \<Rightarrow> composition \<Rightarrow> string list \<Rightarrow> real
    \<Rightarrow> exn + real" where
  "u_loop calc_u usettings ucorr cmp [] corr = Inr corr"
| "u_loop calc_u usettings ucorr cmp (el # els) corr =
     (if get0 calc_u el \<noteq> get0 usettings el then Inl CompatibilityError
      else u_loop calc_u usettings ucorr cmp els
             (case map_of ucorr el of
                Some x \<Rightarrow> corr + x * amount cmp el
              | None \<Rightarrow> corr))"

definition UCorrection_get_correction :: "u_config \<Rightarrow> entry \<Rightarrow> exn + real" where
  "UCorrection_get_correction cfg e =
     (if (case run_type (parameters e) of None \<Rightarrow> ''GGA'' | Some r \<Rightarrow> r) = ''HF''
      then Inl CompatibilityError
      else
        (let calc_u = (case hubbards (parameters e) of None \<Rightarrow> [] | Some h \<Rightarrow> h);
             cmp = composition e;
             els = sort_key (electronegativity cfg)
                     (filter (\<lambda>el. amount cmp el > 0) (elements cmp))
         in if els = [] then Inl IndexError
            else
              (let most_electroneg = last els;
                   ucorr = (case map_of (u_corrections cfg) most_electroneg of
                              None \<Rightarrow> [] | Some d \<Rightarrow> d);
                   usettings = (case map_of (u_settings cfg) most_electroneg of
                                  None \<Rightarrow> [] | Some d \<Rightarrow> d)
               in u_loop calc_u usettings ucorr cmp (elements cmp) 0)))"

subsection \<open>The rules as Correction instances\<close>

text \<open>The class docstrings, which the explanation quotes.\<close>

definition PotcarCorrection_doc :: string where
  "PotcarCorrection_doc =
     ''\<newline>'' @
     ''    Checks that POTCARs are valid within a pre-defined input set. This\<newline>'' @
     ''    ensures that calculations performed using different InputSets are not\<newline>'' @
     ''    compared against each other.\<newline>'' @
     ''\<newline>'' @
     ''    Entry.parameters must contain a '' @
     [CHR 0x22] @
     ''potcar_symbols'' @
     [CHR 0x22] @
     '' key that is a list of\<newline>'' @
     ''    all POTCARs used in the run. Again, using the example of an Fe2O3 run\<newline>'' @
     ''    using Materials Project parameters, this would look like\<newline>'' @
     ''    entry.parameters['' @
     [CHR 0x22] @
     ''potcar_symbols'' @
     [CHR 0x22] @
     ''] = ['PAW_PBE Fe_pv 06Sep2000',\<newline>'' @
     ''    'PAW_PBE O 08Apr2002'].\<newline>'' @
     ''    ''"

definition GasCorrection_doc :: string where
  "GasCorrection_doc =
     ''\<newline>'' @
     ''    Correct gas energies to obtain the right formation energies. Note that\<newline>'' @
     ''    this depends on calculations being run within the same input set.\<newline>'' @
     ''    ''"

definition AnionCorrection_doc :: string where
  "AnionCorrection_doc =
     ''\<newline>'' @
     ''    Correct anion energies to obtain the right formation energies. Note that\<newline>'' @
     ''    this depends on calculations being run within the same input set.\<newline>'' @
     ''    ''"

definition AqueousCorrection_doc :: string where
  "AqueousCorrection_doc =
     ''\<newline>'' @
     ''    This class implements aqueous phase compound corrections for elements\<newline>'' @
     ''    and H2O.\<newline>'' @
     ''    ''"

definition UCorrection_doc :: string where
  "UCorrection_doc =
     ''\<newline>'' @
     ''    This class implements the GGA/GGA+U mixing scheme, which allows mixing of\<newline>'' @
     ''    entries. Entry.parameters must contain a '' @
     [CHR 0x22] @
     ''hubbards'' @
     [CHR 0x22] @
     '' key which is a dict\<newline>'' @
     ''    of all non-zero Hubbard U values used in the calculation. For example,\<newline>'' @
     ''    if you ran a Fe2O3 calculation with Materials Project parameters,\<newline>'' @
     ''    this would look like entry.parameters['' @
     [CHR 0x22] @
     ''hubbards'' @
     [CHR 0x22] @
     ''] = {'' @
     [CHR 0x22] @
     ''Fe'' @
     [CHR 0x22] @
     '': 5.3}\<newline>'' @
     ''    If the '' @
     [CHR 0x22] @
     ''hubbards'' @
     [CHR 0x22] @
     '' key is missing, a GGA run is assumed.\<newline>'' @
     ''\<newline>'' @
     ''    It should be noted that ComputedEntries assimilated using the\<newline>'' @
     ''    pymatgen.apps.borg package and obtained via the MaterialsProject REST\<newline>'' @
     ''    interface using the pymatgen.matproj.rest package will automatically have\<newline>'' @
     ''    these fields populated.\<newline>'' @
     ''    ''"

definition PotcarCorrection :: "potcar_config \<Rightarrow> correction_rule" where
  "PotcarCorrection cfg =
     \<lparr>str = input_set_name cfg @ '' Potcar Correction'',
      doc = Some PotcarCorrection_doc,
      get_correction = PotcarCorrection_get_correction cfg\<rparr>"

definition GasCorrection :: "gas_config \<Rightarrow> correction_rule" where
  "GasCorrection cfg =
     \<lparr>str = gas_name cfg @ '' Gas Correction'',
      doc = Some GasCorrection_doc,
      get_correction = GasCorrection_get_correction cfg\<rparr>"

definition AnionCorrection :: "anion_config \<Rightarrow> correction_rule" where
  "AnionCorrection cfg =
     \<lparr>str = anion_name cfg @ '' Anion Correction'',
      doc = Some AnionCorrection_doc,
      get_correction = (\<lambda>e. fst (AnionCorrection_get_correction cfg e))\<rparr>"

definition AqueousCorrection :: "aqueous_config \<Rightarrow> correction_rule" where
  "AqueousCorrection cfg =
     \<lparr>str = aq_name cfg @ '' Aqueous Correction'',
      doc = Some AqueousCorrection_doc,
      get_correction = AqueousCorrection_get_correction cfg\<rparr>"

definition UCorrection :: "u_config \<Rightarrow> correction_rule" where
  "UCorrection cfg =
     \<lparr>str = u_name cfg @ '' '' @ compat_type cfg @ '' Correction'',
      doc = Some UCorrection_doc,
      get_correction = UCorrection_get_correction cfg\<rparr>"

section \<open>CorrectionsList\<close>

text \<open>The loop of \<^verbatim>\<open>CorrectionsList.get_corrections_dict\<close>, on the dict built so far.\<close>

fun collect_corrections :: "correction_rule list \<Rightarrow> entry \<Rightarrow> real dict \<Rightarrow> exn + real dict" where
  "collect_corrections [] e corrections = Inr corrections"
| "collect_corrections (c # cs) e corrections =
     (case get_correction c e of
        Inl err \<Rightarrow> Inl err
      | Inr val \<Rightarrow>
          collect_corrections cs e
            (if val \<noteq> 0 then AList.update (str c) val corrections else corrections))"

definition CorrectionsList_get_corrections_dict ::
    "correction_rule list \<Rightarrow> entry \<Rightarrow> exn + real dict" where
  "CorrectionsList_get_corrections_dict cs e = collect_corrections cs e []"

text \<open>
  An instance of CorrectionsList, or of a subclass of it named \<open>cname\<close>, with the
  rules \<open>cs\<close> and the flag \<open>cl\<close>.
\<close>

definition CorrectionsList :: "string \<Rightarrow> correction_rule list \<Rightarrow> bool \<Rightarrow> compatibility" where
  "CorrectionsList cname cs cl =
     \<lparr>clean = cl, class_name = cname,
      get_corrections_dict = CorrectionsList_get_corrections_dict cs\<rparr>"

subsection \<open>\<^verbatim>\<open>get_explanation_dict\<close>\<close>

text \<open>One item of the list under \<^verbatim>\<open>"corrections"\<close>.\<close>

record correction_item =
  item_name :: string
  item_description :: string
  item_value :: real

record explanation =
  x_compatibility :: string
  x_uncorrected_energy :: real
  x_corrected_energy :: "real option"
  x_corrections :: "correction_item list"

text \<open>
  The part of the method after the call of \<^verbatim>\<open>process_entry\<close>; \<open>e\<close> is the
  entry as that call left it.
\<close>

definition explanation_items :: "correction_rule list \<Rightarrow> real dict \<Rightarrow> exn + correction_item list" where
  "explanation_items cs corr_dict =
     collect (\<lambda>c. case doc c of
                     None \<Rightarrow> Inl AttributeError
                   | Some d \<Rightarrow>
                       Inr \<lparr>item_name = str c,
                            item_description = strip (before_Args d),
                            item_value = get0 corr_dict (str c)\<rparr>) cs"

definition build_explanation ::
    "string \<Rightarrow> correction_rule list \<Rightarrow> real option \<Rightarrow> entry \<Rightarrow> exn + explanation" where
  "build_explanation cname cs corrected e =
     (case CorrectionsList_get_corrections_dict cs e of
        Inl err \<Rightarrow> Inl err
      | Inr corr_dict \<Rightarrow>
          (case explanation_items cs corr_dict of
             Inl err \<Rightarrow> Inl err
           | Inr items \<Rightarrow>
               Inr \<lparr>x_compatibility = cname,
                    x_uncorrected_energy = uncorrected_energy e,
                    x_corrected_energy = corrected,
                    x_corrections = items\<rparr>))"

text \<open>The dict returned or the exception raised, and the entry object after the call.\<close>

definition get_explanation_dict ::
    "string \<Rightarrow> correction_rule list \<Rightarrow> bool \<Rightarrow> entry \<Rightarrow> (exn + explanation) \<times> entry" where
  "get_explanation_dict cname cs cl e0 =
     (case process_entry (CorrectionsList cname cs cl) e0 of
        (Raised err, e) \<Rightarrow> (Inl err, e)
      | (Rejected, e) \<Rightarrow> (build_explanation cname cs None e, e)
      | (Returned, e) \<Rightarrow> (build_explanation cname cs (Some (energy e)) e, e))"

section \<open>Reading the state of an entry\<close>

text \<open>
  The value recorded in the Ledger of \<open>e\<close> for the label \<open>k\<close> under the source
  \<open>cls\<close>, if any.
\<close>

definition ledger_get :: "entry \<Rightarrow> string \<Rightarrow> string \<Rightarrow> real option" where
  "ledger_get e cls k =
     (case energy_adjustments (data e) of
        None \<Rightarrow> None
      | Some adj \<Rightarrow> (case map_of adj cls of None \<Rightarrow> None | Some inner \<Rightarrow> map_of inner k))"

text \<open>The entry \<open>e'\<close> differs from \<open>e\<close> at most in its correction and its Ledger.\<close>

definition unchanged_outside_ledger :: "entry \<Rightarrow> entry \<Rightarrow> bool" where
  "unchanged_outside_ledger e e' =
     (e' = e\<lparr>correction := correction e',
             data := (data e)\<lparr>energy_adjustments := energy_adjustments (data e')\<rparr>\<rparr>)"

text \<open>The entry as \<^verbatim>\<open>process_entry\<close> has it after its first statement.\<close>

definition prepared :: "compatibility \<Rightarrow> entry \<Rightarrow> entry" where
  "prepared c e = (if clean c then clean_entry e else e)"

text \<open>The call lets an exception through.\<close>

definition lets_through :: "outcome \<Rightarrow> bool" where
  "lets_through r = (case r of Raised err \<Rightarrow> True | Returned \<Rightarrow> False | Rejected \<Rightarrow> False)"

section \<open>Example entries and engines\<close>

definition no_parameters :: parameters where
  "no_parameters =
     \<lparr>run_type = None, hubbards = None, potcar_spec = None, potcar_symbols = None\<rparr>"

definition no_data :: entry_data where
  "no_data = \<lparr>oxide_type = None, sulfide_type = None, energy_adjustments = None\<rparr>"

text \<open>One and two formula units of \<^verbatim>\<open>O2\<close>, and one of \<^verbatim>\<open>Li2O2\<close>.\<close>

definition O2_cell :: composition where
  "O2_cell = \<lparr>elements = [''O''], amount = (\<lambda>el. if el = ''O'' then 2 else 0),
              num_atoms = 2, reduced_formula = ''O2''\<rparr>"

definition O4_cell :: composition where
  "O4_cell = \<lparr>elements = [''O''], amount = (\<lambda>el. if el = ''O'' then 4 else 0),
              num_atoms = 4, reduced_formula = ''O2''\<rparr>"

definition Li2O2_cell :: composition where
  "Li2O2_cell = \<lparr>elements = [''Li'', ''O''],
                 amount = (\<lambda>el. if el = ''Li'' then 2 else if el = ''O'' then 2 else 0),
                 num_atoms = 4, reduced_formula = ''Li2O2''\<rparr>"

text \<open>Entries as they are before any processing.\<close>

definition fresh_O2 :: entry where
  "fresh_O2 = \<lparr>entry_id = ''O2-a'', composition = O2_cell, uncorrected_energy = -9,
               correction = 0, parameters = no_parameters, data = no_data, struct = None\<rparr>"

definition fresh_O4 :: entry where
  "fresh_O4 = \<lparr>entry_id = ''O2-b'', composition = O4_cell, uncorrected_energy = -9,
               correction = 0, parameters = no_parameters, data = no_data, struct = None\<rparr>"

definition fresh_Li2O2 :: entry where
  "fresh_Li2O2 = \<lparr>entry_id = ''Li2O2-a'', composition = Li2O2_cell, uncorrected_energy = -20,
                  correction = 0, parameters = no_parameters, data = no_data, struct = None\<rparr>"

text \<open>An entry with the correction \<open>c\<close> and the Ledger \<open>adj\<close>.\<close>

definition with_ledger :: "entry \<Rightarrow> real \<Rightarrow> real dict dict \<Rightarrow> entry" where
  "with_ledger e c adj =
     e\<lparr>correction := c, data := (data e)\<lparr>energy_adjustments := Some adj\<rparr>\<rparr>"

text \<open>An entry that declares the run type \<open>rt\<close>.\<close>

definition with_run_type :: "entry \<Rightarrow> string \<Rightarrow> entry" where
  "with_run_type e rt = e\<lparr>parameters := (parameters e)\<lparr>run_type := Some rt\<rparr>\<rparr>"

text \<open>Rule configurations.\<close>

definition gas_MP :: gas_config where
  "gas_MP = \<lparr>gas_name = ''MP'', cpd_energies = [(''O2'', -4)]\<rparr>"

definition gas_MIT :: gas_config where
  "gas_MIT = \<lparr>gas_name = ''MIT'', cpd_energies = [(''O2'', - 7 / 2)]\<rparr>"

definition u_GGA :: u_config where
  "u_GGA = \<lparr>u_name = ''MP'', compat_type = ''GGA'', u_settings = [], u_corrections = [],
            electronegativity = (\<lambda>el. if el = ''O'' then 344 / 100 else 1)\<rparr>"

definition potcar_hashed :: potcar_config where
  "potcar_hashed = \<lparr>valid_potcars = [(''O'', ''hash-of-O'')], check_hash = True,
                    input_set_name = ''MPRelaxSet''\<rparr>"

definition anion_MP :: anion_config where
  "anion_MP = \<lparr>oxide_correction = [(''oxide'', - 7 / 10), (''peroxide'', - 1 / 2)],
               sulfide_correction = [], anion_name = ''MP'', correct_peroxide = True,
               classify_oxide = (\<lambda>st. (''oxide'', 0)),
               classify_sulfide = (\<lambda>st. ''sulfide'')\<rparr>"

text \<open>Engines.\<close>

definition keep_MP :: compatibility where
  "keep_MP = CorrectionsList ''CorrectionsList'' [GasCorrection gas_MP] False"

definition keep_MP_MIT :: compatibility where
  "keep_MP_MIT =
     CorrectionsList ''CorrectionsList'' [GasCorrection gas_MP, GasCorrection gas_MIT] False"


definition clean_MP_U :: compatibility where
  "clean_MP_U =
     CorrectionsList ''CorrectionsList'' [GasCorrection gas_MP, UCorrection u_GGA] True"

definition clean_potcar :: compatibility where
  "clean_potcar = CorrectionsList ''CorrectionsList'' [PotcarCorrection potcar_hashed] True"

section \<open>The batch, as its documentation words it\<close>

text \<open>
  The entries of \<open>es\<close> for which \<^verbatim>\<open>process_entry\<close> returns the entry, as they are
  after the call and in the order of \<open>es\<close>.
\<close>

definition surviving :: "compatibility \<Rightarrow> entry list \<Rightarrow> entry list" where
  "surviving c es =
     map (\<lambda>e. snd (process_entry c e)) (filter (\<lambda>e. fst (process_entry c e) = Returned) es)"

text \<open>The exception of the first entry of \<open>es\<close> on which \<^verbatim>\<open>process_entry\<close> lets one through.\<close>

definition first_raised :: "compatibility \<Rightarrow> entry list \<Rightarrow> exn option" where
  "first_raised c es =
     (case filter lets_through (map (\<lambda>e. fst (process_entry c e)) es) of
        Raised err # rest \<Rightarrow> Some err
      | _ \<Rightarrow> None)"

section \<open>Properties of the engine\<close>

subsection \<open>Evaluation on concrete inputs\<close>

lemmas engine_defs =
  process_entry_def validate_corrections_def documented_correction_def
  apply_adjustment_def toplevel_get_equals_def conflict_message_def clean_entry_def
  handle_exn_def truthy_dict_def truthy_num_def
  CorrectionsList_def CorrectionsList_get_corrections_dict_def prepared_def
  ledger_get_def Let_def

lemmas O2_defs =
  no_parameters_def no_data_def O2_cell_def fresh_O2_def with_ledger_def
  gas_MP_def GasCorrection_def GasCorrection_get_correction_def

subsection \<open>What the engine leaves alone\<close>

lemma process_entry_snd:
  "snd (process_entry c e) = prepared c e \<or>
   (\<exists>kvs. snd (process_entry c e) = snd (merge_corrections (class_name c) kvs (prepared c e)))"
  unfolding process_entry_def Let_def prepared_def
  by (auto split: sum.splits prod.splits option.splits) (metis snd_conv)+

lemma unchanged_refl: "unchanged_outside_ledger e e"
  by (simp add: unchanged_outside_ledger_def)

lemma unchanged_trans:
  "unchanged_outside_ledger e e' \<Longrightarrow> unchanged_outside_ledger e' e'' \<Longrightarrow>
   unchanged_outside_ledger e e''"
  unfolding unchanged_outside_ledger_def
  by (cases e; cases e'; cases e''; cases "data e"; cases "data e'"; cases "data e''") auto

lemma unchanged_update:
  "unchanged_outside_ledger e
     (e\<lparr>correction := x, data := (data e)\<lparr>energy_adjustments := y\<rparr>\<rparr>)"
  by (simp add: unchanged_outside_ledger_def)

lemma apply_adjustment_unchanged:
  "apply_adjustment cls e kv = Inr e' \<Longrightarrow> unchanged_outside_ledger e e'"
  unfolding apply_adjustment_def Let_def
  by (auto simp: unchanged_update unchanged_refl split: if_splits sum.splits)

lemma merge_corrections_unchanged:
  "unchanged_outside_ledger e (snd (merge_corrections cls kvs e))"
proof (induction kvs arbitrary: e)
  case Nil
  show ?case by (simp add: unchanged_refl)
next
  case (Cons kv kvs)
  show ?case
  proof (cases "apply_adjustment cls e kv")
    case (Inl x)
    then show ?thesis by (simp add: unchanged_refl)
  next
    case (Inr e')
    have "unchanged_outside_ledger e e'"
      using Inr by (rule apply_adjustment_unchanged)
    moreover have "unchanged_outside_ledger e' (snd (merge_corrections cls kvs e'))"
      by (rule Cons.IH)
    ultimately show ?thesis
      using Inr by (simp add: unchanged_trans)
  qed
qed

lemma prepared_unchanged: "unchanged_outside_ledger e (prepared c e)"
  by (simp add: prepared_def clean_entry_def unchanged_update unchanged_refl)

lemma process_entry_unchanged:
  "unchanged_outside_ledger e (snd (process_entry c e))"
  using process_entry_snd [of c e] prepared_unchanged [of e c]
    merge_corrections_unchanged [of "prepared c e" "class_name c"]
  by (metis unchanged_trans)

lemma clean_entry_absorbs:
  "unchanged_outside_ledger e e' \<Longrightarrow> clean_entry e' = clean_entry e"
  unfolding unchanged_outside_ledger_def clean_entry_def
  by (cases e; cases e'; cases "data e"; cases "data e'") auto

text \<open>
  An engine that cleans sees nothing of what an earlier run left: processing its own
  result again gives the same outcome and the same entry.
\<close>

lemma process_entry_clean_idempotent:
  assumes "clean c"
  shows "process_entry c (snd (process_entry c e)) = process_entry c e"
proof -
  have "clean_entry (snd (process_entry c e)) = clean_entry e"
    using process_entry_unchanged by (rule clean_entry_absorbs)
  then show ?thesis
    using assms by (simp add: process_entry_def)
qed

subsection \<open>One label at a time\<close>

lemma apply_adjustment_new:
  assumes "\<not> truthy_num (ledger_get e cls k)"
  shows "\<exists>e'. apply_adjustment cls e (k, v) = Inr e' \<and> correction e' = correction e + v \<and>
           (\<forall>k'. ledger_get e' cls k' = (if k' = k then Some v else ledger_get e cls k'))"
  using assms
  unfolding apply_adjustment_def ledger_get_def Let_def truthy_dict_def
  by (auto simp: AList.update_conv' split: option.splits)




lemma merge_corrections_new:
  assumes "distinct (map fst kvs)"
    and "list_all (\<lambda>kv. \<not> truthy_num (ledger_get e cls (fst kv))) kvs"
  shows "\<exists>e'. merge_corrections cls kvs e = (None, e') \<and>
           correction e' = foldl (+) (correction e) (map snd kvs) \<and>
           (\<forall>k. ledger_get e' cls k =
                  (case map_of kvs k of Some v \<Rightarrow> Some v | None \<Rightarrow> ledger_get e cls k))"
  using assms
proof (induction kvs arbitrary: e)
  case Nil
  then show ?case by simp
next
  case (Cons kv kvs)
  obtain k v where kv: "kv = (k, v)" by (cases kv)
  have nk: "\<not> truthy_num (ledger_get e cls k)"
    using Cons.prems(2) kv by simp
  obtain e1 where e1: "apply_adjustment cls e (k, v) = Inr e1"
      "correction e1 = correction e + v"
      "\<And>k'. ledger_get e1 cls k' = (if k' = k then Some v else ledger_get e cls k')"
    using apply_adjustment_new [OF nk, of v] by blast
  have notin: "k \<notin> fst ` set kvs"
    using Cons.prems(1) kv by simp
  have d: "distinct (map fst kvs)"
    using Cons.prems(1) by simp
  have rest: "list_all (\<lambda>kv. \<not> truthy_num (ledger_get e1 cls (fst kv))) kvs"
    using Cons.prems(2) notin e1(3) by (auto simp: list_all_iff)
  obtain e' where e': "merge_corrections cls kvs e1 = (None, e')"
      "correction e' = foldl (+) (correction e1) (map snd kvs)"
      "\<And>k'. ledger_get e' cls k' =
             (case map_of kvs k' of Some v \<Rightarrow> Some v | None \<Rightarrow> ledger_get e1 cls k')"
    using Cons.IH [OF d rest] by blast
  have nonek: "map_of kvs k = None"
    using notin by (simp add: map_of_eq_None_iff)
  have "merge_corrections cls (kv # kvs) e = (None, e')"
    using kv e1(1) e'(1) by simp
  moreover have "correction e' = foldl (+) (correction e) (map snd (kv # kvs))"
    using e'(2) e1(2) kv by simp
  moreover have "\<forall>k'. ledger_get e' cls k' =
      (case map_of (kv # kvs) k' of Some v \<Rightarrow> Some v | None \<Rightarrow> ledger_get e cls k')"
    using e'(3) e1(3) kv nonek by (auto split: option.splits)
  ultimately show ?case by blast
qed



lemma validate_corrections_atoms:
  "num_atoms (composition e) \<noteq> 0 \<Longrightarrow> \<exists>ws. validate_corrections e = Inr ws"
  by (simp add: validate_corrections_def)

lemma prepared_composition: "composition (prepared c e) = composition e"
  by (simp add: prepared_def clean_entry_def)

section \<open>The claims\<close>

subsection \<open>C1: applying the same engine twice\<close>

text \<open>
  C1 (idempotent re-application). An engine that keeps earlier adjustments
  (\<^verbatim>\<open>clean=False\<close>) processes a fresh \<^verbatim>\<open>O2\<close> entry and records the gas
  correction 1 under its own name. Processed again by the same engine, the entry is not
  returned unchanged: the recorded label is found, the comparison reads the label at the
  top level of the Ledger instead of under the source, and the call ends with the
  TypeError of the message it tries to format.
\<close>

theorem second_run_of_keeping_engine_raises:
  "process_entry keep_MP fresh_O2 =
     (Returned, with_ledger fresh_O2 1 [(''CorrectionsList'', [(''MP Gas Correction'', 1)])]) \<and>
   process_entry keep_MP
       (with_ledger fresh_O2 1 [(''CorrectionsList'', [(''MP Gas Correction'', 1)])]) =
     (Raised TypeError,
      with_ledger fresh_O2 1 [(''CorrectionsList'', [(''MP Gas Correction'', 1)])])"
  by (simp add: engine_defs O2_defs keep_MP_def)

subsection \<open>C2: a label recorded with another value\<close>




subsection \<open>C4: the reference-table rule\<close>

text \<open>
  C4 (reference-table exactness), as the code has it. When the reduced formula of the
  entry is in the table with the value \<open>E\<close>, the rule returns \<open>E\<close> times the number of
  atoms of the composition, minus the uncorrected energy: for a composition of \<open>N\<close>
  formula units of \<open>a\<close> atoms each that is \<open>E * (N * a)\<close> minus the uncorrected
  energy. When the reduced formula is not in the table, the rule returns zero.
\<close>

theorem gas_correction_scales_with_atoms:
  "(map_of (cpd_energies cfg) (reduced_formula (composition e)) = Some E \<longrightarrow>
      GasCorrection_get_correction cfg e =
        Inr (E * num_atoms (composition e) - uncorrected_energy e) \<and>
      (a \<noteq> 0 \<longrightarrow>
         GasCorrection_get_correction cfg e =
           Inr (E * (formula_units (composition e) a * a) - uncorrected_energy e))) \<and>
   (map_of (cpd_energies cfg) (reduced_formula (composition e)) = None \<longrightarrow>
      GasCorrection_get_correction cfg e = Inr 0)"
  by (simp add: GasCorrection_get_correction_def formula_units_def)

theorem gas_correction_scales_with_atoms_witness:
  "map_of (cpd_energies gas_MP) (reduced_formula (composition fresh_O4)) = Some (-4) \<and>
   formula_units (composition fresh_O4) 2 = 2 \<and>
   GasCorrection_get_correction gas_MP fresh_O4 = Inr ((-4) * (2 * 2) - (-9)) \<and>
   map_of (cpd_energies gas_MP) (reduced_formula (composition fresh_Li2O2)) = None \<and>
   GasCorrection_get_correction gas_MP fresh_Li2O2 = Inr 0"
proof -
  have h1: "map_of (cpd_energies gas_MP) (reduced_formula (composition fresh_O4)) = Some (-4)"
    by (simp add: O2_defs O4_cell_def fresh_O4_def Li2O2_cell_def fresh_Li2O2_def)
  have h2: "map_of (cpd_energies gas_MP) (reduced_formula (composition fresh_Li2O2)) = None"
    by (simp add: O2_defs O4_cell_def fresh_O4_def Li2O2_cell_def fresh_Li2O2_def)
  have h3: "(2::real) \<noteq> 0"
    by simp
  have n: "formula_units (composition fresh_O4) 2 = 2" "uncorrected_energy fresh_O4 = -9"
      "num_atoms (composition fresh_O4) = 4"
    by (simp_all add: O2_defs O4_cell_def fresh_O4_def Li2O2_cell_def fresh_Li2O2_def formula_units_def)
  show ?thesis
    using gas_correction_scales_with_atoms [of gas_MP fresh_O4 "-4" 2]
      gas_correction_scales_with_atoms [of gas_MP fresh_Li2O2 0 2] h1 h2 h3 n
    by simp
qed

text \<open>
  The example of the specification: the table gives \<open>-4\<close> for \<^verbatim>\<open>O2\<close>, the
  composition holds two formula units (four atoms, two to the formula) and the
  uncorrected energy is \<open>-9\<close>. The claim's value is \<open>(-4) * 2 - (-9) = 1\<close>; the rule
  returns \<open>-7\<close>.
\<close>

theorem gas_correction_formula_units_counterexample:
  "map_of (cpd_energies gas_MP) (reduced_formula (composition fresh_O4)) = Some (-4) \<and>
   formula_units (composition fresh_O4) 2 = 2 \<and>
   GasCorrection_get_correction gas_MP fresh_O4 = Inr (-7) \<and>
   GasCorrection_get_correction gas_MP fresh_O4 \<noteq> Inr ((-4) * 2 - uncorrected_energy fresh_O4)"
  by (simp add: O2_defs O4_cell_def fresh_O4_def formula_units_def)

subsection \<open>C5: what the explanation does to the entry\<close>

text \<open>
  C5 (audit and side effects), as the code has it. \<^verbatim>\<open>get_explanation_dict\<close> calls
  \<^verbatim>\<open>process_entry\<close> on the entry itself: it leaves the entry exactly as
  \<^verbatim>\<open>process_entry\<close> leaves it, so the correction and the Ledger may change, and
  every other field is as before.
\<close>

theorem explanation_leaves_processed_entry:
  "snd (get_explanation_dict cname cs cl e) =
     snd (process_entry (CorrectionsList cname cs cl) e) \<and>
   unchanged_outside_ledger e (snd (get_explanation_dict cname cs cl e))"
proof -
  have "snd (get_explanation_dict cname cs cl e) =
      snd (process_entry (CorrectionsList cname cs cl) e)"
    unfolding get_explanation_dict_def
    by (cases "process_entry (CorrectionsList cname cs cl) e")
       (auto split: outcome.splits)
  then show ?thesis
    using process_entry_unchanged [of e "CorrectionsList cname cs cl"] by simp
qed

text \<open>
  Explaining a fresh \<^verbatim>\<open>O2\<close> entry gives it the correction 1 and a Ledger: the
  entry after the call is not the entry before it.
\<close>

theorem explanation_mutates_counterexample:
  "snd (get_explanation_dict ''CorrectionsList'' [GasCorrection gas_MP] True fresh_O2) =
     with_ledger fresh_O2 1 [(''CorrectionsList'', [(''MP Gas Correction'', 1)])] \<and>
   correction (snd (get_explanation_dict ''CorrectionsList'' [GasCorrection gas_MP] True fresh_O2))
     \<noteq> correction fresh_O2 \<and>
   snd (get_explanation_dict ''CorrectionsList'' [GasCorrection gas_MP] True fresh_O2) \<noteq> fresh_O2"
proof -
  have p: "process_entry (CorrectionsList ''CorrectionsList'' [GasCorrection gas_MP] True) fresh_O2 =
      (Returned, with_ledger fresh_O2 1 [(''CorrectionsList'', [(''MP Gas Correction'', 1)])])"
    by (simp add: engine_defs O2_defs)
  have s: "snd (get_explanation_dict ''CorrectionsList'' [GasCorrection gas_MP] True fresh_O2) =
      with_ledger fresh_O2 1 [(''CorrectionsList'', [(''MP Gas Correction'', 1)])]"
    by (simp add: get_explanation_dict_def p)
  have c: "correction (with_ledger fresh_O2 1 [(''CorrectionsList'', [(''MP Gas Correction'', 1)])])
      \<noteq> correction fresh_O2"
    by (simp add: engine_defs O2_defs)
  then have "with_ledger fresh_O2 1 [(''CorrectionsList'', [(''MP Gas Correction'', 1)])] \<noteq> fresh_O2"
    by auto
  then show ?thesis using s c by simp
qed

subsection \<open>C6: explaining a rejected entry\<close>

text \<open>
  C6 (audit of a rejected entry). An entry of run type \<^verbatim>\<open>HF\<close> is rejected by the
  rule set: \<^verbatim>\<open>process_entry\<close> returns \<^verbatim>\<open>None\<close>. \<^verbatim>\<open>get_explanation_dict\<close>
  prepares the absent final energy for it, then calls \<^verbatim>\<open>get_corrections_dict\<close>
  again outside any handler, and the CompatibilityError leaves the method: no record is
  produced.
\<close>

theorem explanation_of_rejected_entry_raises:
  "process_entry clean_MP_U (with_run_type fresh_O2 ''HF'') =
     (Rejected, with_run_type fresh_O2 ''HF'') \<and>
   get_explanation_dict ''CorrectionsList'' [GasCorrection gas_MP, UCorrection u_GGA] True
       (with_run_type fresh_O2 ''HF'') =
     (Inl CompatibilityError, with_run_type fresh_O2 ''HF'')"
proof -
  have p: "process_entry (CorrectionsList ''CorrectionsList''
               [GasCorrection gas_MP, UCorrection u_GGA] True) (with_run_type fresh_O2 ''HF'') =
      (Rejected, with_run_type fresh_O2 ''HF'')"
    by (simp add: engine_defs O2_defs with_run_type_def u_GGA_def UCorrection_def
          UCorrection_get_correction_def get0_def clean_MP_U_def)
  have g: "CorrectionsList_get_corrections_dict [GasCorrection gas_MP, UCorrection u_GGA]
      (with_run_type fresh_O2 ''HF'') = Inl CompatibilityError"
    by (simp add: engine_defs O2_defs with_run_type_def u_GGA_def UCorrection_def
          UCorrection_get_correction_def get0_def clean_MP_U_def)
  show ?thesis
    using p by (simp add: get_explanation_dict_def build_explanation_def g clean_MP_U_def)
qed

subsection \<open>C7: the batch\<close>

lemma lets_through_simps:
  "lets_through (Raised x)" "\<not> lets_through Returned" "\<not> lets_through Rejected"
  by (simp_all add: lets_through_def)

text \<open>
  C7 (batch processing), as the code has it. \<^verbatim>\<open>process_entries\<close> catches nothing
  itself: when \<^verbatim>\<open>process_entry\<close> lets an exception through on some entry, the first
  such exception ends the batch; otherwise the result is the list of the entries that
  \<^verbatim>\<open>process_entry\<close> returns, each as its own call left it, in the order of the
  input, the rejected ones dropped.
\<close>

theorem process_entries_characterised:
  "process_entries c es =
     (case first_raised c es of
        Some err \<Rightarrow> Inl err
      | None \<Rightarrow> Inr (surviving c es))"
proof (induction es)
  case Nil
  show ?case by (simp add: first_raised_def surviving_def)
next
  case (Cons e es)
  obtain r e' where r: "process_entry c e = (r, e')"
    by (cases "process_entry c e")
  show ?case
  proof (cases r)
    case Returned
    have "first_raised c (e # es) = first_raised c es"
      using r Returned by (simp add: first_raised_def lets_through_simps)
    moreover have "surviving c (e # es) = e' # surviving c es"
      using r Returned by (simp add: surviving_def)
    ultimately show ?thesis
      using Cons.IH r Returned by (simp split: option.splits)
  next
    case Rejected
    have "first_raised c (e # es) = first_raised c es"
      using r Rejected by (simp add: first_raised_def lets_through_simps)
    moreover have "surviving c (e # es) = surviving c es"
      using r Rejected by (simp add: surviving_def)
    ultimately show ?thesis
      using Cons.IH r Rejected by (simp split: option.splits)
  next
    case (Raised x)
    have "first_raised c (e # es) = Some x"
      using r Raised by (simp add: first_raised_def lets_through_simps)
    then show ?thesis
      using r Raised by simp
  qed
qed

theorem process_entries_characterised_witness:
  "first_raised clean_MP_U [fresh_O2, with_run_type fresh_O2 ''HF'', fresh_O4] = None \<and>
   process_entries clean_MP_U [fresh_O2, with_run_type fresh_O2 ''HF'', fresh_O4] =
     Inr [with_ledger fresh_O2 1 [(''CorrectionsList'', [(''MP Gas Correction'', 1)])],
          with_ledger fresh_O4 (-7) [(''CorrectionsList'', [(''MP Gas Correction'', -7)])]]"
proof -
  have a: "process_entry clean_MP_U fresh_O2 =
      (Returned, with_ledger fresh_O2 1 [(''CorrectionsList'', [(''MP Gas Correction'', 1)])])"
    by (simp add: engine_defs O2_defs O4_cell_def fresh_O4_def with_run_type_def u_GGA_def
          UCorrection_def UCorrection_get_correction_def get0_def clean_MP_U_def)
  have b: "process_entry clean_MP_U (with_run_type fresh_O2 ''HF'') =
      (Rejected, with_run_type fresh_O2 ''HF'')"
    by (simp add: engine_defs O2_defs O4_cell_def fresh_O4_def with_run_type_def u_GGA_def
          UCorrection_def UCorrection_get_correction_def get0_def clean_MP_U_def)
  have c: "process_entry clean_MP_U fresh_O4 =
      (Returned, with_ledger fresh_O4 (-7) [(''CorrectionsList'', [(''MP Gas Correction'', -7)])])"
    by (simp add: engine_defs O2_defs O4_cell_def fresh_O4_def with_run_type_def u_GGA_def
          UCorrection_def UCorrection_get_correction_def get0_def clean_MP_U_def)
  have f: "first_raised clean_MP_U [fresh_O2, with_run_type fresh_O2 ''HF'', fresh_O4] = None"
    by (simp add: first_raised_def a b c lets_through_simps)
  have s: "surviving clean_MP_U [fresh_O2, with_run_type fresh_O2 ''HF'', fresh_O4] =
     [with_ledger fresh_O2 1 [(''CorrectionsList'', [(''MP Gas Correction'', 1)])],
      with_ledger fresh_O4 (-7) [(''CorrectionsList'', [(''MP Gas Correction'', -7)])]]"
    by (simp add: surviving_def a b c)
  show ?thesis
    using process_entries_characterised
            [of clean_MP_U "[fresh_O2, with_run_type fresh_O2 ''HF'', fresh_O4]"] f s
    by simp
qed

text \<open>
  A rule set that checks POTCAR hashes raises ValueError for an entry without
  \<^verbatim>\<open>potcar_spec\<close>; the exception crosses \<^verbatim>\<open>process_entries\<close>, although the
  entry before it is valid.
\<close>

theorem process_entries_raises_counterexample:
  "PotcarCorrection_get_correction potcar_hashed fresh_O2 = Inl ValueError \<and>
   process_entries clean_potcar [fresh_O2] = Inl ValueError \<and>
   process_entries clean_MP_U [fresh_O2] =
     Inr [with_ledger fresh_O2 1 [(''CorrectionsList'', [(''MP Gas Correction'', 1)])]]"
  by (simp add: engine_defs O2_defs u_GGA_def UCorrection_def UCorrection_get_correction_def
        get0_def clean_MP_U_def potcar_hashed_def clean_potcar_def PotcarCorrection_def
        PotcarCorrection_get_correction_def psp_settings_def truthy_list_def)

subsection \<open>C8: the run type\<close>




subsection \<open>C9: a known peroxide without structural data\<close>

text \<open>
  C9 (oxide fallback ordering). For an entry of reduced formula \<^verbatim>\<open>Li2O2\<close> (hence
  with oxygen, without sulfur and with more than one element), with no
  \<^verbatim>\<open>oxide_type\<close> datum and no structure, and a rule with peroxide corrections
  enabled whose table gives \<open>p\<close> for \<^verbatim>\<open>peroxide\<close>: the rule returns \<open>p\<close> times the
  number of oxygen atoms, and emits the warning.
\<close>

theorem known_peroxide_gets_peroxide_value:
  assumes "reduced_formula (composition e) = ''Li2O2''"
    and "''O'' \<in> set (elements (composition e))"
    and "''S'' \<notin> set (elements (composition e))"
    and "length (elements (composition e)) \<noteq> 1"
    and "oxide_type (data e) = None"
    and "struct e = None"
    and "correct_peroxide cfg"
    and "map_of (oxide_correction cfg) ''peroxide'' = Some p"
  shows "AnionCorrection_get_correction cfg e =
           (Inr (p * amount (composition e) ''O''), [NoStructureOrOxideType])"
proof -
  have s: "sulfide_part cfg e = 0"
    using assms(3) by (simp add: sulfide_part_def)
  have m: "reduced_formula (composition e) \<in> set common_peroxides"
    using assms(1) by (simp add: common_peroxides_def)
  have o: "oxide_part cfg e =
      (Inr (p * amount (composition e) ''O''), [NoStructureOrOxideType])"
    using assms(2,5,6,7,8) m
    by (simp add: oxide_part_def oxide_scaled_def getitem_def truthy_str_def)
  show ?thesis
    using assms(4) s o by (simp add: AnionCorrection_get_correction_def)
qed

theorem known_peroxide_gets_peroxide_value_witness:
  "reduced_formula (composition fresh_Li2O2) = ''Li2O2'' \<and>
   map_of (oxide_correction anion_MP) ''peroxide'' = Some (- 1 / 2) \<and>
   map_of (oxide_correction anion_MP) ''oxide'' = Some (- 7 / 10) \<and>
   AnionCorrection_get_correction anion_MP fresh_Li2O2 = (Inr (-1), [NoStructureOrOxideType])"
proof -
  have h1: "reduced_formula (composition fresh_Li2O2) = ''Li2O2''"
    by (simp add: no_parameters_def no_data_def Li2O2_cell_def fresh_Li2O2_def anion_MP_def)
  have h2: "''O'' \<in> set (elements (composition fresh_Li2O2))"
    by (simp add: no_parameters_def no_data_def Li2O2_cell_def fresh_Li2O2_def anion_MP_def)
  have h3: "''S'' \<notin> set (elements (composition fresh_Li2O2))"
    by (simp add: no_parameters_def no_data_def Li2O2_cell_def fresh_Li2O2_def anion_MP_def)
  have h4: "length (elements (composition fresh_Li2O2)) \<noteq> 1"
    by (simp add: no_parameters_def no_data_def Li2O2_cell_def fresh_Li2O2_def anion_MP_def)
  have h5: "oxide_type (data fresh_Li2O2) = None"
    by (simp add: no_parameters_def no_data_def Li2O2_cell_def fresh_Li2O2_def anion_MP_def)
  have h6: "struct fresh_Li2O2 = None"
    by (simp add: no_parameters_def no_data_def Li2O2_cell_def fresh_Li2O2_def anion_MP_def)
  have h7: "correct_peroxide anion_MP"
    by (simp add: no_parameters_def no_data_def Li2O2_cell_def fresh_Li2O2_def anion_MP_def)
  have h8: "map_of (oxide_correction anion_MP) ''peroxide'' = Some (- 1 / 2)"
    by (simp add: no_parameters_def no_data_def Li2O2_cell_def fresh_Li2O2_def anion_MP_def)
  have h9: "map_of (oxide_correction anion_MP) ''oxide'' = Some (- 7 / 10)"
    by (simp add: no_parameters_def no_data_def Li2O2_cell_def fresh_Li2O2_def anion_MP_def)
  have a: "amount (composition fresh_Li2O2) ''O'' = 2"
    by (simp add: no_parameters_def no_data_def Li2O2_cell_def fresh_Li2O2_def anion_MP_def)
  show ?thesis
    using known_peroxide_gets_peroxide_value [OF h1 h2 h3 h4 h5 h6 h7 h8] h1 h8 h9 a
    by simp
qed

subsection \<open>C10: a label recorded with the value zero\<close>

text \<open>
  C10 (stored zero), as the code has it. For an entry whose Ledger records, under the
  engine's name, the label \<open>k\<close> with the value 0, and rules that compute a value \<open>v\<close>
  other than zero for \<open>k\<close>, when no other label of theirs is recorded with a value
  other than zero: the call returns the entry, the Ledger now records \<open>v\<close> for \<open>k\<close>,
  which is not what it recorded before, and the values computed, \<open>v\<close> among them, are
  added to the correction one after the other.
\<close>

theorem stored_zero_is_overwritten:
  assumes "ledger_get e (class_name c) k = Some 0"
    and "num_atoms (composition e) \<noteq> 0"
    and "get_corrections_dict c (prepared c e) = Inr corrs"
    and "distinct (map fst corrs)"
    and "map_of corrs k = Some v" and "v \<noteq> 0"
    and "list_all (\<lambda>kv. fst kv = k \<or>
            \<not> truthy_num (ledger_get (prepared c e) (class_name c) (fst kv))) corrs"
  shows "\<exists>e'. process_entry c e = (Returned, e') \<and>
           ledger_get e' (class_name c) k = Some v \<and>
           ledger_get e' (class_name c) k \<noteq> ledger_get e (class_name c) k \<and>
           correction e' = foldl (+) (correction (prepared c e)) (map snd corrs)"
proof -
  obtain ws where ws: "validate_corrections (prepared c e) = Inr ws"
    using validate_corrections_atoms [of "prepared c e"] assms(2)
    by (auto simp: prepared_composition)
  have zero: "\<not> truthy_num (ledger_get (prepared c e) (class_name c) k)"
    using assms(1)
    by (simp add: prepared_def clean_entry_def ledger_get_def truthy_num_def)
  have all: "list_all (\<lambda>kv. \<not> truthy_num (ledger_get (prepared c e) (class_name c) (fst kv))) corrs"
    using assms(7) zero by (auto simp: list_all_iff)
  obtain e' where e': "merge_corrections (class_name c) corrs (prepared c e) = (None, e')"
      "correction e' = foldl (+) (correction (prepared c e)) (map snd corrs)"
      "\<And>k'. ledger_get e' (class_name c) k' =
         (case map_of corrs k' of Some v \<Rightarrow> Some v
          | None \<Rightarrow> ledger_get (prepared c e) (class_name c) k')"
    using merge_corrections_new [OF assms(4) all] by blast
  have "process_entry c e = (Returned, e')"
    using ws assms(3) e'(1) by (simp add: process_entry_def prepared_def)
  moreover have new: "ledger_get e' (class_name c) k = Some v"
    using e'(3) [of k] assms(5) by simp
  moreover have "ledger_get e' (class_name c) k \<noteq> ledger_get e (class_name c) k"
    using new assms(1) assms(6) by simp
  ultimately show ?thesis
    using e'(2) by blast
qed

theorem stored_zero_is_overwritten_witness:
  "ledger_get (with_ledger fresh_O2 0 [(''CorrectionsList'', [(''MIT Gas Correction'', 0)])])
      (class_name keep_MP_MIT) ''MIT Gas Correction'' = Some 0 \<and>
   get_corrections_dict keep_MP_MIT
      (with_ledger fresh_O2 0 [(''CorrectionsList'', [(''MIT Gas Correction'', 0)])]) =
     Inr [(''MP Gas Correction'', 1), (''MIT Gas Correction'', 2)] \<and>
   process_entry keep_MP_MIT
      (with_ledger fresh_O2 0 [(''CorrectionsList'', [(''MIT Gas Correction'', 0)])]) =
     (Returned, with_ledger fresh_O2 3
        [(''CorrectionsList'', [(''MIT Gas Correction'', 2), (''MP Gas Correction'', 1)])])"
proof -
  let ?e = "with_ledger fresh_O2 0 [(''CorrectionsList'', [(''MIT Gas Correction'', 0)])]"
  let ?corrs = "[(''MP Gas Correction'', 1::real), (''MIT Gas Correction'', 2)]"
  have h1: "ledger_get ?e (class_name keep_MP_MIT) ''MIT Gas Correction'' = Some 0"
    by (simp add: engine_defs O2_defs keep_MP_MIT_def)
  have h2: "num_atoms (composition ?e) \<noteq> 0"
    by (simp add: O2_defs)
  have h3: "get_corrections_dict keep_MP_MIT (prepared keep_MP_MIT ?e) = Inr ?corrs"
    by (simp add: engine_defs O2_defs gas_MIT_def keep_MP_MIT_def)
  have h4: "distinct (map fst ?corrs)"
    by simp
  have h5: "map_of ?corrs ''MIT Gas Correction'' = Some 2"
    by simp
  have h6: "(2::real) \<noteq> 0" by simp
  have h7: "list_all (\<lambda>kv. fst kv = ''MIT Gas Correction'' \<or>
      \<not> truthy_num (ledger_get (prepared keep_MP_MIT ?e) (class_name keep_MP_MIT) (fst kv)))
      ?corrs"
    by (simp add: engine_defs O2_defs keep_MP_MIT_def)
  have g: "get_corrections_dict keep_MP_MIT ?e = Inr ?corrs"
    by (simp add: engine_defs O2_defs gas_MIT_def keep_MP_MIT_def)
  have p: "process_entry keep_MP_MIT ?e =
     (Returned, with_ledger fresh_O2 3
        [(''CorrectionsList'', [(''MIT Gas Correction'', 2), (''MP Gas Correction'', 1)])])"
    by (simp add: engine_defs O2_defs gas_MIT_def keep_MP_MIT_def)
  show ?thesis
    using stored_zero_is_overwritten [OF h1 h2 h3 h4 h5 h6 h7] h1 g p by simp
qed

text \<open>
  The claim as stated fails when another label is in conflict. The Ledger records 5 for
  the first label and 0 for the second, and the rules compute 1 and 2: the merge ends at
  the first label, and the call leaves the entry as it was, the zero still recorded and
  nothing added to the correction.
\<close>

theorem stored_zero_stays_counterexample:
  "ledger_get
      (with_ledger fresh_O2 5
         [(''CorrectionsList'', [(''MP Gas Correction'', 5), (''MIT Gas Correction'', 0)])])
      ''CorrectionsList'' ''MIT Gas Correction'' = Some 0 \<and>
   get_corrections_dict keep_MP_MIT
      (with_ledger fresh_O2 5
         [(''CorrectionsList'', [(''MP Gas Correction'', 5), (''MIT Gas Correction'', 0)])]) =
     Inr [(''MP Gas Correction'', 1), (''MIT Gas Correction'', 2)] \<and>
   snd (process_entry keep_MP_MIT
      (with_ledger fresh_O2 5
         [(''CorrectionsList'', [(''MP Gas Correction'', 5), (''MIT Gas Correction'', 0)])])) =
     with_ledger fresh_O2 5
       [(''CorrectionsList'', [(''MP Gas Correction'', 5), (''MIT Gas Correction'', 0)])] \<and>
   ledger_get
      (snd (process_entry keep_MP_MIT
         (with_ledger fresh_O2 5
            [(''CorrectionsList'', [(''MP Gas Correction'', 5), (''MIT Gas Correction'', 0)])])))
      ''CorrectionsList'' ''MIT Gas Correction'' = Some 0 \<and>
   correction
      (snd (process_entry keep_MP_MIT
         (with_ledger fresh_O2 5
            [(''CorrectionsList'', [(''MP Gas Correction'', 5), (''MIT Gas Correction'', 0)])])))
     = 5"
  by (simp add: engine_defs O2_defs gas_MIT_def keep_MP_MIT_def)

end
